theory Spec2Isabelle
  imports Complex_Main "HOL-Library.Char_ord" "HOL-Library.List_Lexorder"
begin

section \<open>Data model\<close>

text \<open>
  The scorecard repository has two programs: the ingestor
  (\<^verbatim>\<open>data-ingestion/new_ingestor.py\<close>), which collects raw metrics for a scan and
  computes its final score, and the read API (\<^verbatim>\<open>api/api.py\<close>), which returns the
  latest scored scan of a project with the theoretical maximum of the formula.

  Numbers. Python computes the scores in binary floating point; this development
  computes them in the rationals, so every product, sum and difference below is
  exact. On the concrete scenario of the specification (7.5, 6, 10, 2, 1) the two
  agree, since every intermediate value is a small dyadic rational.

  Exceptions are values of the type \<open>error\<close>; a function that may raise returns
  \<open>error + 'a\<close> with \<open>Inl\<close> for the exception.
\<close>

datatype error =
  KeyError string
  | FileNotFoundError
  | HTTPException nat
  | OverflowError

text \<open>
  One entry of the \<^verbatim>\<open>metrics\<close> list of \<^verbatim>\<open>scoring_config.yaml\<close>. The entry is a
  dictionary in the source, so every key may be absent: a field is \<open>None\<close> when the
  key is not in the dictionary.
\<close>

record 'n metric_def =
  name :: "string option"
  source :: "string option"
  key :: "string option"
  weight :: "'n option"
  m_type :: "string option"
  scale_factor :: "'n option"
  max_score :: "'n option"
  base_max_value :: "'n option"

text \<open>The parsed configuration file: a dictionary with three known keys.\<close>

record 'n scoring_config =
  description :: "string option"
  calculation_logic :: "string option"
  metrics :: "'n metric_def list option"

text \<open>A row of \<^verbatim>\<open>project_scans\<close>; \<open>final_score\<close> is NULL until the scan is scored.\<close>

record project_scan =
  scan_id :: nat
  project_name :: string
  scan_date :: nat
  final_score :: "rat option"

text \<open>A row of \<^verbatim>\<open>scan_metadata\<close>; the value is stored as text.\<close>

record scan_metadata_row =
  metadata_id :: nat
  sm_scan_id :: nat
  metric_key :: string
  metric_value :: string
  metric_source :: string

record database =
  project_scans :: "project_scan list"
  scan_metadata :: "scan_metadata_row list"
  metadata_scores :: "(nat \<times> rat option) list"

section \<open>Python primitives\<close>

text \<open>\<^verbatim>\<open>d.get(k, default)\<close> on an optional field.\<close>

definition get_default :: "'a option \<Rightarrow> 'a \<Rightarrow> 'a" where
  "get_default v d = (case v of None \<Rightarrow> d | Some x \<Rightarrow> x)"

text \<open>
  \<^verbatim>\<open>round(x, ndigits)\<close>: the nearest multiple of \<open>10 ^ -ndigits\<close>, a tie going to
  the even one.
\<close>

definition py_round :: "rat \<Rightarrow> nat \<Rightarrow> rat" where
  "py_round x ndigits =
     (let y = x * 10 ^ ndigits;
          f = \<lfloor>y\<rfloor>;
          r = y - of_int f
      in (if r < 1 / 2 then of_int f
          else if 1 / 2 < r then of_int f + 1
          else if even f then of_int f
          else of_int f + 1) / 10 ^ ndigits)"

text \<open>
  \<^verbatim>\<open>float(s)\<close> is a parameter \<open>pf\<close> of the scoring functions: \<open>pf s = None\<close> when
  \<^verbatim>\<open>float\<close> raises ValueError. The function \<open>float_decimal\<close> below is the instance
  used on concrete inputs: it reads an optional sign, digits, and an optional
  fraction, where it agrees with \<^verbatim>\<open>float\<close>, and is \<open>None\<close> on every other string.
\<close>

definition digit_of :: "char \<Rightarrow> nat option" where
  "digit_of c = map_of (zip ''0123456789'' [0, 1, 2, 3, 4, 5, 6, 7, 8, 9]) c"

fun digits_value :: "string \<Rightarrow> nat \<Rightarrow> nat option" where
  "digits_value [] acc = Some acc"
| "digits_value (c # cs) acc =
     (case digit_of c of None \<Rightarrow> None | Some d \<Rightarrow> digits_value cs (10 * acc + d))"

definition unsigned_decimal :: "string \<Rightarrow> rat option" where
  "unsigned_decimal s =
     (let ip = takeWhile (\<lambda>c. c \<noteq> CHR ''.'') s;
          rest = dropWhile (\<lambda>c. c \<noteq> CHR ''.'') s;
          fp = (case rest of [] \<Rightarrow> [] | _ # t \<Rightarrow> t)
      in if ip = [] \<and> fp = [] then None
         else (case (digits_value ip 0, digits_value fp 0) of
                 (Some i, Some f) \<Rightarrow> Some (of_nat i + of_nat f / 10 ^ length fp)
               | _ \<Rightarrow> None))"

definition float_decimal :: "string \<Rightarrow> rat option" where
  "float_decimal s =
     (case s of
        [] \<Rightarrow> None
      | c # cs \<Rightarrow>
          if c = CHR ''-'' then map_option uminus (unsigned_decimal cs)
          else if c = CHR ''+'' then unsigned_decimal cs
          else unsigned_decimal s)"

section \<open>The ingestor: \<^verbatim>\<open>calculate_final_score\<close>\<close>

text \<open>
  \<^verbatim>\<open>metrics_by_source\<close> is a dictionary from source to a dictionary from key to
  value. It starts with an empty inner dictionary for every source among the
  records; then every record whose value parses is written into it, a later record
  replacing an earlier one with the same source and key, and a record whose value
  does not parse is passed over (\<^verbatim>\<open>except (ValueError, TypeError): pass\<close>).
  The inner dictionary of a record's source always exists when the record is
  written, since the first pass made one for every record.
\<close>

type_synonym 'v metrics_dict = "string \<rightharpoonup> (string \<rightharpoonup> 'v)"

fun init_sources :: "scan_metadata_row list \<Rightarrow> 'v metrics_dict \<Rightarrow> 'v metrics_dict" where
  "init_sources [] m = m"
| "init_sources (r # rs) m = init_sources rs (m(metric_source r \<mapsto> Map.empty))"

fun fill_metrics ::
  "(string \<Rightarrow> 'v option) \<Rightarrow> scan_metadata_row list \<Rightarrow> 'v metrics_dict \<Rightarrow> 'v metrics_dict"
  where
  "fill_metrics pf [] m = m"
| "fill_metrics pf (r # rs) m =
     (case pf (metric_value r) of
        None \<Rightarrow> fill_metrics pf rs m
      | Some v \<Rightarrow>
          fill_metrics pf rs
            (m(metric_source r \<mapsto> (get_default (m (metric_source r)) Map.empty)(metric_key r \<mapsto> v))))"

definition metrics_by_source ::
  "(string \<Rightarrow> 'v option) \<Rightarrow> scan_metadata_row list \<Rightarrow> 'v metrics_dict" where
  "metrics_by_source pf records = fill_metrics pf records (init_sources records Map.empty)"

text \<open>
  \<^verbatim>\<open>metrics_by_source.get(source, {}).get(key, -1)\<close>: first the two lookups
  without the default, then the whole expression.
\<close>

definition lookup_metric :: "'v metrics_dict \<Rightarrow> string \<Rightarrow> string \<Rightarrow> 'v option" where
  "lookup_metric m s k = get_default (m s) Map.empty k"

definition raw_value :: "rat metrics_dict \<Rightarrow> string \<Rightarrow> string \<Rightarrow> rat" where
  "raw_value m s k = get_default (lookup_metric m s k) (- 1)"

text \<open>The \<^verbatim>\<open>if\<close>/\<^verbatim>\<open>elif\<close> chain on the metric type; an unknown type leaves the score 0.\<close>

definition metric_score :: "rat metric_def \<Rightarrow> string \<Rightarrow> rat \<Rightarrow> rat" where
  "metric_score d t raw =
     (if t = ''direct'' then raw
      else if t = ''direct_scaled'' then raw * get_default (scale_factor d) 1
      else if t = ''inverted_scaled'' then
        max 0 (get_default (max_score d) 100 - raw * get_default (scale_factor d) 1)
      else if t = ''inverted_percentage'' then get_default (max_score d) 100 - raw
      else 0)"

text \<open>
  The loop over \<^verbatim>\<open>metrics_config\<close>, on the pair (\<^verbatim>\<open>total_score\<close>, \<^verbatim>\<open>total_weight\<close>).
  The four subscripts \<^verbatim>\<open>metric_def['source']\<close>, \<^verbatim>\<open>['key']\<close>, \<^verbatim>\<open>['weight']\<close>,
  \<^verbatim>\<open>['type']\<close> raise KeyError on an absent key, in this order, before the lookup.
\<close>

fun score_loop ::
  "rat metrics_dict \<Rightarrow> rat metric_def list \<Rightarrow> rat \<times> rat \<Rightarrow> error + rat \<times> rat" where
  "score_loop m [] acc = Inr acc"
| "score_loop m (d # ds) acc =
     (case source d of None \<Rightarrow> Inl (KeyError ''source'') | Some s \<Rightarrow>
     (case key d of None \<Rightarrow> Inl (KeyError ''key'') | Some k \<Rightarrow>
     (case weight d of None \<Rightarrow> Inl (KeyError ''weight'') | Some w \<Rightarrow>
     (case m_type d of None \<Rightarrow> Inl (KeyError ''type'') | Some t \<Rightarrow>
        if raw_value m s k = - 1 then score_loop m ds acc
        else score_loop m ds
               (fst acc + metric_score d t (raw_value m s k) * w, snd acc + w)))))"

text \<open>
  \<^verbatim>\<open>calculate_final_score(scan_id)\<close>. The connection is \<open>None\<close> when
  \<^verbatim>\<open>get_db_connection\<close> fails; the configuration is \<open>None\<close> when the file
  \<^verbatim>\<open>scoring_config.yaml\<close> is absent, and then \<^verbatim>\<open>load_scoring_config\<close> of the ingestor
  raises FileNotFoundError, which nothing in the ingestor catches.
\<close>

definition calculate_final_score ::
  "(string \<Rightarrow> rat option) \<Rightarrow> database option \<Rightarrow> rat scoring_config option \<Rightarrow> nat
     \<Rightarrow> error + rat" where
  "calculate_final_score pf conn config_file sid =
     (case conn of
        None \<Rightarrow> Inr 0
      | Some db \<Rightarrow>
          let records = filter (\<lambda>r. sm_scan_id r = sid) (scan_metadata db) in
          if records = [] then Inr 0
          else (case config_file of
                  None \<Rightarrow> Inl FileNotFoundError
                | Some config \<Rightarrow>
                    (case score_loop (metrics_by_source pf records)
                            (get_default (metrics config) []) (0, 0) of
                       Inl e \<Rightarrow> Inl e
                     | Inr (total_score, total_weight) \<Rightarrow> Inr (py_round total_score 2))))"

section \<open>The read API: \<^verbatim>\<open>calculate_max_score\<close>\<close>

text \<open>
  One pass of the loop body: the amount added to \<^verbatim>\<open>max_score\<close>. The three known
  branches log \<^verbatim>\<open>metric['name']\<close>, which raises KeyError when the entry has no name;
  an entry of any other type adds nothing and reads no name.
\<close>

definition metric_max_score :: "rat metric_def \<Rightarrow> error + rat" where
  "metric_max_score d =
     (let w = get_default (weight d) 1 in
      if m_type d = Some ''direct_scaled'' then
        (case name d of None \<Rightarrow> Inl (KeyError ''name'')
         | Some _ \<Rightarrow> Inr (get_default (base_max_value d) 10 * get_default (scale_factor d) 1 * w))
      else if m_type d = Some ''direct'' then
        (case name d of None \<Rightarrow> Inl (KeyError ''name'') | Some _ \<Rightarrow> Inr (100 * w))
      else if m_type d = Some ''inverted_scaled'' \<or> m_type d = Some ''inverted_percentage'' then
        (case name d of None \<Rightarrow> Inl (KeyError ''name'')
         | Some _ \<Rightarrow> Inr (get_default (max_score d) 0 * w))
      else Inr 0)"

fun max_loop :: "rat metric_def list \<Rightarrow> rat \<Rightarrow> error + rat" where
  "max_loop [] acc = Inr acc"
| "max_loop (d # ds) acc =
     (case metric_max_score d of Inl e \<Rightarrow> Inl e | Inr x \<Rightarrow> max_loop ds (acc + x))"

text \<open>
  \<^verbatim>\<open>calculate_max_score(scoring_config)\<close>: 0 when the configuration is \<open>None\<close>, an
  empty dictionary, or has no \<^verbatim>\<open>metrics\<close> key.
\<close>

definition config_truthy :: "'n scoring_config \<Rightarrow> bool" where
  "config_truthy c \<longleftrightarrow>
     \<not> (description c = None \<and> calculation_logic c = None \<and> metrics c = None)"

definition calculate_max_score :: "rat scoring_config option \<Rightarrow> error + rat" where
  "calculate_max_score scoring_config =
     (case scoring_config of
        None \<Rightarrow> Inr 0
      | Some c \<Rightarrow>
          (case metrics c of
             None \<Rightarrow> Inr 0
           | Some ms \<Rightarrow> max_loop ms 0))"

section \<open>The read API: \<^verbatim>\<open>get_latest_scan\<close>\<close>

text \<open>
  The first query: the rows of the project with a final score (the \<^verbatim>\<open>WHERE\<close>
  clause is \<open>scored\<close>), newest first, and \<^verbatim>\<open>LIMIT 1\<close>. \<^verbatim>\<open>fetchone\<close> gives the
  first row or \<open>None\<close>. Among rows of the same date the database may return any;
  the model returns the last of them in table order.
\<close>

definition scored :: "string \<Rightarrow> project_scan \<Rightarrow> bool" where
  "scored p s \<longleftrightarrow> project_name s = p \<and> final_score s \<noteq> None"

definition select_latest_scan :: "database \<Rightarrow> string \<Rightarrow> project_scan option" where
  "select_latest_scan db p =
     (case rev (sort_key scan_date (filter (scored p) (project_scans db))) of
        [] \<Rightarrow> None
      | s # _ \<Rightarrow> Some s)"

text \<open>
  The second query: the metadata rows of the scan, each joined (\<^verbatim>\<open>LEFT JOIN\<close>) with
  its rows of \<^verbatim>\<open>metadata_scores\<close>, or with a NULL score when it has none.
\<close>

record metadata_entry =
  entry_metric_key :: string
  entry_metric_value :: string
  entry_score :: "rat option"

definition select_metadata :: "database \<Rightarrow> nat \<Rightarrow> (string \<times> metadata_entry) list" where
  "select_metadata db sid =
     concat (map (\<lambda>sm.
         (case filter (\<lambda>ms. fst ms = metadata_id sm) (metadata_scores db) of
            [] \<Rightarrow> [(metric_source sm,
                    \<lparr>entry_metric_key = metric_key sm, entry_metric_value = metric_value sm,
                     entry_score = None\<rparr>)]
          | mss \<Rightarrow> map (\<lambda>ms. (metric_source sm,
                    \<lparr>entry_metric_key = metric_key sm, entry_metric_value = metric_value sm,
                     entry_score = snd ms\<rparr>)) mss))
       (filter (\<lambda>sm. sm_scan_id sm = sid) (scan_metadata db)))"

text \<open>
  \<^verbatim>\<open>grouped_metadata\<close>: a dictionary from source to the list of its entries, kept
  here as an association list in the order in which the sources first appear, each
  list then sorted by metric key (\<^verbatim>\<open>sorted\<close> is stable, as \<open>sort_key\<close> is).
\<close>

fun append_entry ::
  "string \<Rightarrow> metadata_entry \<Rightarrow> (string \<times> metadata_entry list) list
     \<Rightarrow> (string \<times> metadata_entry list) list" where
  "append_entry s e [] = [(s, [e])]"
| "append_entry s e ((s', es) # g) =
     (if s' = s then (s', es @ [e]) # g else (s', es) # append_entry s e g)"

fun group_metadata ::
  "(string \<times> metadata_entry) list \<Rightarrow> (string \<times> metadata_entry list) list
     \<Rightarrow> (string \<times> metadata_entry list) list" where
  "group_metadata [] g = g"
| "group_metadata ((s, e) # rows) g = group_metadata rows (append_entry s e g)"

definition grouped_metadata ::
  "(string \<times> metadata_entry) list \<Rightarrow> (string \<times> metadata_entry list) list" where
  "grouped_metadata rows =
     map (\<lambda>(s, es). (s, sort_key entry_metric_key es)) (group_metadata rows [])"

text \<open>
  The response: the row of the scan with three more keys. The formula section is
  either the three fields of the configuration or the error message.
\<close>

datatype scoring_formula =
  FormulaDetails "string option" "string option" "rat metric_def list option"
  | FormulaError string

record scan_view =
  view_scan :: project_scan
  view_max_score :: rat
  view_scoring_formula :: scoring_formula
  view_metadata :: "(string \<times> metadata_entry list) list"

text \<open>
  \<^verbatim>\<open>get_latest_scan(project_name)\<close>. The connection is \<open>None\<close> when
  \<^verbatim>\<open>psycopg2.connect\<close> fails, and then \<^verbatim>\<open>get_db_connection\<close> of the API raises
  the HTTP error 500. \<^verbatim>\<open>load_scoring_config\<close> of the API returns \<open>None\<close> for an
  absent file; the test \<^verbatim>\<open>if scoring_config\<close> also fails on an empty dictionary.
  A KeyError of \<^verbatim>\<open>calculate_max_score\<close> is not caught by the endpoint.
\<close>

definition get_latest_scan ::
  "database option \<Rightarrow> rat scoring_config option \<Rightarrow> string \<Rightarrow> error + scan_view" where
  "get_latest_scan conn config_file p =
     (case conn of
        None \<Rightarrow> Inl (HTTPException 500)
      | Some db \<Rightarrow>
          (case select_latest_scan db p of
             None \<Rightarrow> Inl (HTTPException 404)
           | Some latest_scan \<Rightarrow>
               let metadata = grouped_metadata (select_metadata db (scan_id latest_scan)) in
               (case config_file of
                  None \<Rightarrow>
                    Inr \<lparr>view_scan = latest_scan, view_max_score = 0,
                         view_scoring_formula = FormulaError ''Scoring configuration not found.'',
                         view_metadata = metadata\<rparr>
                | Some c \<Rightarrow>
                    if config_truthy c then
                      (case calculate_max_score (Some c) of
                         Inl e \<Rightarrow> Inl e
                       | Inr mx \<Rightarrow>
                           Inr \<lparr>view_scan = latest_scan, view_max_score = mx,
                                view_scoring_formula =
                                  FormulaDetails (description c) (calculation_logic c) (metrics c),
                                view_metadata = metadata\<rparr>)
                    else
                      Inr \<lparr>view_scan = latest_scan, view_max_score = 0,
                           view_scoring_formula = FormulaError ''Scoring configuration not found.'',
                           view_metadata = metadata\<rparr>)))"

section \<open>The formula as the specification words it\<close>








text \<open>
  The contribution of one entry as a function of its raw value: the total score
  after the scoring loop has run on this entry alone, against a dictionary in which
  every lookup finds the value \<open>v\<close>.
\<close>

definition contribution :: "rat metric_def \<Rightarrow> rat \<Rightarrow> error + rat" where
  "contribution d v =
     (case score_loop (\<lambda>s. Some (\<lambda>k. Some v)) [d] (0, 0) of
        Inl e \<Rightarrow> Inl e
      | Inr acc \<Rightarrow> Inr (fst acc))"

section \<open>Concrete inputs\<close>

text \<open>
  The scenario of section 8 of the specification: two entries, and a scan with the
  two raw metrics, stored as \<^verbatim>\<open>str(value)\<close> writes them. The names of the entries
  are left open.
\<close>

definition coverage_def :: "string \<Rightarrow> rat metric_def" where
  "coverage_def n =
     \<lparr>name = Some n, source = Some ''sonarqube'', key = Some ''coverage'', weight = Some 2,
      m_type = Some ''direct_scaled'', scale_factor = Some 1, max_score = None,
      base_max_value = Some 10\<rparr>"

definition overall_def :: "string \<Rightarrow> rat metric_def" where
  "overall_def n =
     \<lparr>name = Some n, source = Some ''openssf'', key = Some ''overall_score'', weight = Some 1,
      m_type = Some ''inverted_percentage'', scale_factor = None, max_score = Some 10,
      base_max_value = None\<rparr>"

definition config_of :: "'n metric_def list \<Rightarrow> 'n scoring_config" where
  "config_of ds = \<lparr>description = None, calculation_logic = None, metrics = Some ds\<rparr>"

definition coverage_row :: "string \<Rightarrow> scan_metadata_row" where
  "coverage_row v =
     \<lparr>metadata_id = 1, sm_scan_id = 1, metric_key = ''coverage'', metric_value = v,
      metric_source = ''sonarqube''\<rparr>"

definition overall_row :: "string \<Rightarrow> scan_metadata_row" where
  "overall_row v =
     \<lparr>metadata_id = 2, sm_scan_id = 1, metric_key = ''overall_score'', metric_value = v,
      metric_source = ''openssf''\<rparr>"

definition db_of :: "project_scan list \<Rightarrow> scan_metadata_row list \<Rightarrow> database" where
  "db_of scans rows = \<lparr>project_scans = scans, scan_metadata = rows, metadata_scores = []\<rparr>"

definition scenario_db :: database where
  "scenario_db = db_of [] [coverage_row ''7.5'', overall_row ''6'']"

text \<open>An entry of type \<^verbatim>\<open>direct\<close> for the same key, and a database without metadata.\<close>

definition direct_def :: "rat metric_def" where
  "direct_def =
     \<lparr>name = Some ''Coverage'', source = Some ''sonarqube'', key = Some ''coverage'',
      weight = Some 1, m_type = Some ''direct'', scale_factor = None, max_score = None,
      base_max_value = None\<rparr>"

definition empty_db :: database where
  "empty_db = db_of [] []"

text \<open>
  Two scans of one project with a score, a newer one without a score, and a scan of
  another project; the first scan has the two metadata rows of the scenario.
\<close>

definition history_db :: database where
  "history_db =
     db_of
       [\<lparr>scan_id = 1, project_name = ''scorecard'', scan_date = 10, final_score = Some 19\<rparr>,
        \<lparr>scan_id = 2, project_name = ''scorecard'', scan_date = 20, final_score = Some 0\<rparr>,
        \<lparr>scan_id = 3, project_name = ''scorecard'', scan_date = 30, final_score = None\<rparr>,
        \<lparr>scan_id = 4, project_name = ''other'', scan_date = 40, final_score = Some 5\<rparr>]
       [coverage_row ''7.5'', overall_row ''6'']"

section \<open>Lemmas\<close>

subsection \<open>The dictionary of parsed metrics\<close>

lemma lookup_metric_update:
  "lookup_metric (m(s \<mapsto> (get_default (m s) Map.empty)(k \<mapsto> v))) s' k' =
     (if s' = s \<and> k' = k then Some v else lookup_metric m s' k')"
  by (simp add: lookup_metric_def get_default_def)

lemma init_sources_eq:
  "init_sources rs m = (\<lambda>s. if s \<in> metric_source ` set rs then Some Map.empty else m s)"
  by (induction rs arbitrary: m) (auto simp: fun_eq_iff)

lemma lookup_metric_init: "lookup_metric (init_sources rs Map.empty) s k = None"
  by (simp add: init_sources_eq lookup_metric_def get_default_def)

lemma fill_metrics_append:
  "fill_metrics pf (xs @ ys) m = fill_metrics pf ys (fill_metrics pf xs m)"
  by (induction xs arbitrary: m) (auto split: option.splits)

text \<open>Rows of other (source, key) pairs leave a lookup as it was.\<close>

lemma fill_metrics_other:
  "\<forall>r\<in>set rs. \<not> (metric_source r = s \<and> metric_key r = k) \<Longrightarrow>
     lookup_metric (fill_metrics pf rs m) s k = lookup_metric m s k"
proof (induction rs arbitrary: m)
  case Nil
  then show ?case by simp
next
  case (Cons r rs)
  then show ?case
    by (cases "pf (metric_value r)") (auto simp: lookup_metric_update)
qed

text \<open>The lookups after the second pass depend on the lookups before it only.\<close>

lemma fill_metrics_cong:
  "\<forall>s k. lookup_metric m s k = lookup_metric m' s k \<Longrightarrow>
     lookup_metric (fill_metrics pf rs m) s k = lookup_metric (fill_metrics pf rs m') s k"
proof (induction rs arbitrary: m m')
  case Nil
  then show ?case by simp
next
  case (Cons r rs)
  show ?case
  proof (cases "pf (metric_value r)")
    case None
    with Cons show ?thesis by simp
  next
    case (Some v)
    show ?thesis
      unfolding fill_metrics.simps Some option.case
      by (rule Cons.IH) (simp only: lookup_metric_update Cons.prems simp_thms)
  qed
qed

lemma lookup_unparseable:
  assumes "pf (metric_value r) = None"
  shows "lookup_metric (metrics_by_source pf (rs1 @ r # rs2)) s k =
         lookup_metric (metrics_by_source pf (rs1 @ rs2)) s k"
proof -
  have "lookup_metric (metrics_by_source pf (rs1 @ r # rs2)) s k =
        lookup_metric (fill_metrics pf (rs1 @ rs2) (init_sources (rs1 @ r # rs2) Map.empty)) s k"
    using assms by (simp add: metrics_by_source_def fill_metrics_append)
  also have "\<dots> =
        lookup_metric (fill_metrics pf (rs1 @ rs2) (init_sources (rs1 @ rs2) Map.empty)) s k"
    by (rule fill_metrics_cong) (simp add: lookup_metric_init)
  finally show ?thesis by (simp add: metrics_by_source_def)
qed


lemma lookup_last_parsed:
  assumes "pf (metric_value r) = Some v"
    and "\<forall>r'\<in>set rs2. \<not> (metric_source r' = metric_source r \<and> metric_key r' = metric_key r)"
  shows "lookup_metric (metrics_by_source pf (rs1 @ r # rs2)) (metric_source r) (metric_key r)
         = Some v"
proof -
  have "fill_metrics pf (rs1 @ r # rs2) m =
        fill_metrics pf rs2 (fill_metrics pf [r] (fill_metrics pf rs1 m))" for m
    by (simp add: fill_metrics_append split: option.splits)
  then show ?thesis
    using assms by (simp add: metrics_by_source_def fill_metrics_other lookup_metric_update)
qed

subsection \<open>The scoring loop\<close>

lemma score_loop_cong:
  "\<forall>s k. lookup_metric m s k = lookup_metric m' s k \<Longrightarrow>
     score_loop m ds acc = score_loop m' ds acc"
  by (induction ds arbitrary: acc) (auto simp: raw_value_def split: option.splits)

lemma score_loop_skip:
  assumes "source d = Some s" "key d = Some k" "weight d \<noteq> None" "m_type d \<noteq> None"
    and "raw_value m s k = - 1"
  shows "score_loop m (ds1 @ d # ds2) acc = score_loop m (ds1 @ ds2) acc"
  using assms by (induction ds1 arbitrary: acc) (auto split: option.splits)

lemma score_loop_returns:
  "\<forall>d\<in>set ds. source d \<noteq> None \<and> key d \<noteq> None \<and> weight d \<noteq> None \<and> m_type d \<noteq> None \<Longrightarrow>
     \<exists>acc'. score_loop m ds acc = Inr acc'"
  by (induction ds arbitrary: acc) auto




subsection \<open>The maximum\<close>


subsection \<open>The latest scored scan\<close>

lemma select_latest_scan_None:
  "select_latest_scan db p = None \<longleftrightarrow> \<not> (\<exists>s\<in>set (project_scans db). scored p s)"
proof -
  have "select_latest_scan db p = None \<longleftrightarrow>
        sort_key scan_date (filter (scored p) (project_scans db)) = []"
    by (simp add: select_latest_scan_def split: list.splits)
  also have "\<dots> \<longleftrightarrow> set (sort_key scan_date (filter (scored p) (project_scans db))) = {}"
    by (simp only: set_empty)
  also have "\<dots> \<longleftrightarrow> \<not> (\<exists>s\<in>set (project_scans db). scored p s)"
    by (auto simp: filter_empty_conv)
  finally show ?thesis .
qed

lemma select_latest_scan_Some:
  assumes "select_latest_scan db p = Some s"
  shows "s \<in> set (project_scans db) \<and> scored p s \<and>
         (\<forall>s'\<in>set (project_scans db). scored p s' \<longrightarrow> scan_date s' \<le> scan_date s)"
proof -
  let ?xs = "sort_key scan_date (filter (scored p) (project_scans db))"
  from assms obtain t where "rev ?xs = s # t"
    by (auto simp: select_latest_scan_def split: list.splits)
  then have xs: "?xs = rev t @ [s]"
    by (metis rev_rev_ident rev.simps(2))
  have "sorted (map scan_date ?xs)" by (rule sorted_sort_key)
  with xs have le: "\<forall>x\<in>set (rev t). scan_date x \<le> scan_date s"
    by (simp add: sorted_append)
  have mem: "set ?xs = {x \<in> set (project_scans db). scored p x}" by auto
  from xs have "s \<in> set ?xs" by simp
  with mem have "s \<in> set (project_scans db)" "scored p s" by auto
  moreover have "scan_date s' \<le> scan_date s" if "s' \<in> set (project_scans db)" "scored p s'" for s'
  proof -
    from that mem have "s' \<in> set ?xs" by auto
    with xs have "s' = s \<or> s' \<in> set (rev t)" by auto
    with le show ?thesis by auto
  qed
  ultimately show ?thesis by auto
qed

text \<open>The contribution of an entry that has its four keys.\<close>

lemma contribution_eq:
  assumes "source d = Some s" "key d = Some k" "weight d = Some w" "m_type d = Some t"
  shows "contribution d v = Inr (if v = - 1 then 0 else metric_score d t v * w)"
  using assms by (simp add: contribution_def raw_value_def lookup_metric_def get_default_def)

subsection \<open>Evaluation on the concrete inputs\<close>

lemma float_decimal_7_5: "float_decimal ''7.5'' = Some (15 / 2)"
  by (simp add: float_decimal_def unsigned_decimal_def digit_of_def)

lemma float_decimal_6: "float_decimal ''6'' = Some 6"
  by (simp add: float_decimal_def unsigned_decimal_def digit_of_def)

lemma float_decimal_minus_1: "float_decimal ''-1'' = Some (- 1)"
  by (simp add: float_decimal_def unsigned_decimal_def digit_of_def)

lemma float_decimal_na: "float_decimal ''n/a'' = None"
  by (simp add: float_decimal_def unsigned_decimal_def digit_of_def)

lemmas scenario_defs =
  coverage_def_def overall_def_def config_of_def coverage_row_def overall_row_def db_of_def
  scenario_db_def direct_def_def empty_db_def history_db_def

lemmas scoring_defs =
  calculate_final_score_def metrics_by_source_def lookup_metric_def raw_value_def
  metric_score_def get_default_def py_round_def


section \<open>Claims\<close>

text \<open>
  C1. On the scenario of the specification (a \<^verbatim>\<open>direct_scaled\<close> entry for sonarqube
  coverage with weight 2, scale factor 1 and base maximum 10, an
  \<^verbatim>\<open>inverted_percentage\<close> entry for the openssf overall score with weight 1 and
  maximum 10, raw values 7.5 and 6), \<^verbatim>\<open>calculate_final_score\<close> returns 19 and
  \<^verbatim>\<open>calculate_max_score\<close> returns 30, whatever the names of the two entries.
\<close>

theorem scenario_scores:
  "calculate_final_score float_decimal (Some scenario_db)
       (Some (config_of [coverage_def n1, overall_def n2])) 1 = Inr 19 \<and>
   calculate_max_score (Some (config_of [coverage_def n1, overall_def n2])) = Inr 30"
proof
  show "calculate_final_score float_decimal (Some scenario_db)
          (Some (config_of [coverage_def n1, overall_def n2])) 1 = Inr 19"
    by (simp add: scoring_defs scenario_defs float_decimal_7_5 float_decimal_6)
  show "calculate_max_score (Some (config_of [coverage_def n1, overall_def n2])) = Inr 30"
    by (simp add: calculate_max_score_def metric_max_score_def get_default_def scenario_defs)
qed




text \<open>
  C3. The two programs read an absent \<^verbatim>\<open>max_score\<close> differently: the ingestor as
  100, the API as 0. For an \<^verbatim>\<open>inverted_percentage\<close> entry of weight 1 without
  \<^verbatim>\<open>max_score\<close> and the raw value 6, the final score is 94 and the maximum is 0.
\<close>

theorem max_score_default_differs:
  "calculate_final_score float_decimal (Some scenario_db)
     (Some (config_of [(overall_def ''OpenSSF'')\<lparr>max_score := None\<rparr>])) 1 = Inr 94 \<and>
   calculate_max_score (Some (config_of [(overall_def ''OpenSSF'')\<lparr>max_score := None\<rparr>])) = Inr 0"
  by (simp add: scoring_defs scenario_defs float_decimal_7_5 float_decimal_6
      calculate_max_score_def metric_max_score_def)



text \<open>
  C5. When the configuration file is absent, the read endpoint answers with the
  scan, a maximum of 0 and the error text in place of the formula; the ingestor's
  \<^verbatim>\<open>calculate_final_score\<close>, on a scan that has metadata rows, raises
  FileNotFoundError instead of returning a score.
\<close>

theorem config_missing:
  "calculate_final_score float_decimal (Some history_db) None 1 = Inl FileNotFoundError \<and>
   get_latest_scan (Some history_db) None ''scorecard'' =
     Inr \<lparr>view_scan = \<lparr>scan_id = 2, project_name = ''scorecard'', scan_date = 20,
                          final_score = Some 0\<rparr>,
          view_max_score = 0,
          view_scoring_formula = FormulaError ''Scoring configuration not found.'',
          view_metadata = []\<rparr>"
  by (simp add: calculate_final_score_def get_latest_scan_def select_latest_scan_def
      scored_def select_metadata_def grouped_metadata_def scenario_defs)

text \<open>
  C6. With the store reachable, \<^verbatim>\<open>get_latest_scan\<close> raises the HTTP error 404 exactly
  when the project has no scan with a final score. A response carries a scan of the
  project that has a final score and whose date is the greatest among those, so a
  scan without a score is never returned; and there is a response whenever such a
  scan exists and \<^verbatim>\<open>calculate_max_score\<close> raises nothing.
\<close>

theorem latest_scored_scan:
  "(get_latest_scan (Some db) config_file p = Inl (HTTPException 404) \<longleftrightarrow>
      \<not> (\<exists>s\<in>set (project_scans db). scored p s)) \<and>
   (\<forall>v. get_latest_scan (Some db) config_file p = Inr v \<longrightarrow>
      view_scan v \<in> set (project_scans db) \<and> scored p (view_scan v) \<and>
      (\<forall>s'\<in>set (project_scans db). scored p s' \<longrightarrow> scan_date s' \<le> scan_date (view_scan v))) \<and>
   ((\<exists>s\<in>set (project_scans db). scored p s) \<and> (\<forall>e. calculate_max_score config_file \<noteq> Inl e) \<longrightarrow>
      (\<exists>v. get_latest_scan (Some db) config_file p = Inr v))"
proof (intro conjI allI impI)
  show "get_latest_scan (Some db) config_file p = Inl (HTTPException 404) \<longleftrightarrow>
          \<not> (\<exists>s\<in>set (project_scans db). scored p s)"
  proof (cases "select_latest_scan db p")
    case None
    then show ?thesis
      using select_latest_scan_None [of db p] by (simp add: get_latest_scan_def)
  next
    case (Some s)
    then have "\<exists>s\<in>set (project_scans db). scored p s"
      using select_latest_scan_None [of db p] by simp
    moreover have "calculate_max_score (Some c) \<noteq> Inl (HTTPException 404)" for c
    proof (cases "metrics c")
      case None
      then show ?thesis by (simp add: calculate_max_score_def)
    next
      case (Some ms)
      have "max_loop ds acc \<noteq> Inl (HTTPException 404)" for ds acc
        by (induction ds arbitrary: acc)
          (auto simp: metric_max_score_def Let_def split: sum.splits option.splits if_splits)
      with Some show ?thesis by (simp add: calculate_max_score_def)
    qed
    ultimately show ?thesis
      using Some
      by (auto simp: get_latest_scan_def Let_def split: option.splits sum.splits)
  qed
next
  fix v
  assume "get_latest_scan (Some db) config_file p = Inr v"
  then obtain s where "select_latest_scan db p = Some s" "view_scan v = s"
    by (auto simp: get_latest_scan_def Let_def split: option.splits sum.splits if_splits)
  with select_latest_scan_Some [of db p s]
  show "view_scan v \<in> set (project_scans db)" "scored p (view_scan v)"
    "\<forall>s'\<in>set (project_scans db). scored p s' \<longrightarrow> scan_date s' \<le> scan_date (view_scan v)"
    by simp_all
next
  assume a: "(\<exists>s\<in>set (project_scans db). scored p s) \<and> (\<forall>e. calculate_max_score config_file \<noteq> Inl e)"
  then obtain s where "select_latest_scan db p = Some s"
    using select_latest_scan_None [of db p] by auto
  moreover from a obtain mx where "calculate_max_score config_file = Inr mx"
    by (cases "calculate_max_score config_file") auto
  ultimately show "\<exists>v. get_latest_scan (Some db) config_file p = Inr v"
    by (auto simp: get_latest_scan_def Let_def split: option.splits)
qed

theorem latest_scored_scan_witness:
  "get_latest_scan (Some history_db) None ''unknown'' = Inl (HTTPException 404) \<and>
   (\<exists>v. get_latest_scan (Some history_db) None ''scorecard'' = Inr v \<and>
        scan_id (view_scan v) = 2 \<and> scan_date (view_scan v) = 20)"
proof -
  have n: "\<not> (\<exists>s\<in>set (project_scans history_db). scored ''unknown'' s)"
    by (simp add: scored_def scenario_defs)
  have e: "\<exists>s\<in>set (project_scans history_db). scored ''scorecard'' s"
    by (simp add: scored_def scenario_defs)
  have m: "\<forall>e. calculate_max_score None \<noteq> Inl e"
    by (simp add: calculate_max_score_def)
  from latest_scored_scan [of history_db None "''unknown''"] n
  have 1: "get_latest_scan (Some history_db) None ''unknown'' = Inl (HTTPException 404)"
    by simp
  from latest_scored_scan [of history_db None "''scorecard''"] e m
  obtain v where v: "get_latest_scan (Some history_db) None ''scorecard'' = Inr v"
    by blast
  then have "scan_id (view_scan v) = 2 \<and> scan_date (view_scan v) = 20"
    by (auto simp: get_latest_scan_def select_latest_scan_def scored_def scenario_defs)
  with 1 v show ?thesis by blast
qed

text \<open>
  C7. When the scan has no metadata row at all, \<^verbatim>\<open>calculate_final_score\<close> returns
  the fallback 0 and raises nothing, whether or not the configuration file exists.
\<close>

theorem no_records_fallback:
  "\<forall>r\<in>set (scan_metadata db). sm_scan_id r \<noteq> sid \<Longrightarrow>
     calculate_final_score pf (Some db) config_file sid = Inr 0"
proof -
  assume "\<forall>r\<in>set (scan_metadata db). sm_scan_id r \<noteq> sid"
  then have "filter (\<lambda>r. sm_scan_id r = sid) (scan_metadata db) = []"
    by (simp add: filter_empty_conv)
  then show ?thesis
    by (simp add: calculate_final_score_def)
qed

theorem no_records_fallback_witness:
  "calculate_final_score float_decimal (Some empty_db) None 1 = Inr 0 \<and>
   calculate_final_score float_decimal (Some scenario_db) None 2 = Inr 0"
  using no_records_fallback [of empty_db 1 float_decimal None]
    no_records_fallback [of scenario_db 2 float_decimal None]
  by (simp add: scenario_defs)

text \<open>
  C8 (amended). For an entry with its four keys, a weight that is not negative and a
  scale factor (1 when absent) that is not negative, and two raw values
  \<open>v1 < v2\<close> other than -1: the contribution does not decrease for the types
  \<^verbatim>\<open>direct\<close> and \<^verbatim>\<open>direct_scaled\<close>, does not increase for \<^verbatim>\<open>inverted_scaled\<close> and
  \<^verbatim>\<open>inverted_percentage\<close>, and is at least 0 for \<^verbatim>\<open>inverted_scaled\<close>.
\<close>

theorem contribution_monotone:
  assumes "source d \<noteq> None" "key d \<noteq> None" "weight d = Some w" "m_type d = Some t"
    and "0 \<le> w" "0 \<le> get_default (scale_factor d) 1"
    and "v1 < v2" "v1 \<noteq> - 1" "v2 \<noteq> - 1"
  shows "\<exists>c1 c2. contribution d v1 = Inr c1 \<and> contribution d v2 = Inr c2 \<and>
           (t = ''direct'' \<or> t = ''direct_scaled'' \<longrightarrow> c1 \<le> c2) \<and>
           (t = ''inverted_scaled'' \<or> t = ''inverted_percentage'' \<longrightarrow> c2 \<le> c1) \<and>
           (t = ''inverted_scaled'' \<longrightarrow> 0 \<le> c1 \<and> 0 \<le> c2)"
proof -
  from assms(1,2) obtain s k where sk: "source d = Some s" "key d = Some k" by auto
  let ?sf = "get_default (scale_factor d) 1"
  let ?ms = "get_default (max_score d) 100"
  have c1: "contribution d v1 = Inr (metric_score d t v1 * w)"
    using contribution_eq [OF sk assms(3,4)] assms(8) by simp
  have c2: "contribution d v2 = Inr (metric_score d t v2 * w)"
    using contribution_eq [OF sk assms(3,4)] assms(9) by simp
  have sc: "v1 * ?sf \<le> v2 * ?sf"
    using assms(6,7) by (simp add: mult_right_mono)
  have direct: "metric_score d t v1 \<le> metric_score d t v2"
    if "t = ''direct'' \<or> t = ''direct_scaled''"
    using that assms(7) sc by (auto simp: metric_score_def)
  have inv: "metric_score d t v2 \<le> metric_score d t v1"
    if "t = ''inverted_scaled'' \<or> t = ''inverted_percentage''"
    using that assms(7) sc by (auto simp: metric_score_def)
  have pos: "0 \<le> metric_score d t v" if "t = ''inverted_scaled''" for v
    using that by (simp add: metric_score_def)
  show ?thesis
    unfolding c1 c2
    using direct inv pos assms(5)
    by (auto intro: mult_right_mono mult_nonneg_nonneg)
qed

theorem contribution_monotone_witness:
  "contribution (coverage_def ''Coverage'') 3 = Inr 6 \<and>
   contribution (coverage_def ''Coverage'') (15 / 2) = Inr 15 \<and>
   contribution (overall_def ''OpenSSF'') 6 = Inr 4 \<and>
   contribution (overall_def ''OpenSSF'') 12 = Inr (- 2)"
proof -
  have c: "source (coverage_def ''Coverage'') \<noteq> None" "key (coverage_def ''Coverage'') \<noteq> None"
    "weight (coverage_def ''Coverage'') = Some 2"
    "m_type (coverage_def ''Coverage'') = Some ''direct_scaled''"
    "0 \<le> get_default (scale_factor (coverage_def ''Coverage'')) 1"
    by (simp_all add: coverage_def_def get_default_def)
  have o: "source (overall_def ''OpenSSF'') \<noteq> None" "key (overall_def ''OpenSSF'') \<noteq> None"
    "weight (overall_def ''OpenSSF'') = Some 1"
    "m_type (overall_def ''OpenSSF'') = Some ''inverted_percentage''"
    "0 \<le> get_default (scale_factor (overall_def ''OpenSSF'')) 1"
    by (simp_all add: overall_def_def get_default_def)
  have v: "contribution (coverage_def ''Coverage'') 3 = Inr 6"
    "contribution (coverage_def ''Coverage'') (15 / 2) = Inr 15"
    "contribution (overall_def ''OpenSSF'') 6 = Inr 4"
    "contribution (overall_def ''OpenSSF'') 12 = Inr (- 2)"
    by (simp_all add: contribution_def scoring_defs scenario_defs)
  from contribution_monotone [OF c(1-4) _ c(5), of 3 "15 / 2"]
    contribution_monotone [OF o(1-4) _ o(5), of 6 12] v
  show ?thesis by simp
qed

text \<open>
  The claim as written fails for a negative scale factor (a \<^verbatim>\<open>direct_scaled\<close> entry
  with scale factor -1 and weight 2 goes from -2 at the raw value 1 down to -4 at 2)
  and at the raw value -1, which the loop skips (a \<^verbatim>\<open>direct\<close> entry of weight 1
  goes from 0 at -1 down to -1/2 at -1/2).
\<close>

theorem contribution_monotone_counterexample:
  "contribution ((coverage_def ''Coverage'')\<lparr>scale_factor := Some (- 1)\<rparr>) 1 = Inr (- 2) \<and>
   contribution ((coverage_def ''Coverage'')\<lparr>scale_factor := Some (- 1)\<rparr>) 2 = Inr (- 4) \<and>
   \<not> (- 2 :: rat) \<le> - 4 \<and>
   contribution direct_def (- 1) = Inr 0 \<and>
   contribution direct_def (- 1 / 2) = Inr (- 1 / 2) \<and>
   \<not> (0 :: rat) \<le> - 1 / 2"
  by (simp add: contribution_def scoring_defs scenario_defs)

text \<open>
  C9. A metadata row whose value does not parse changes nothing: the scoring loop
  gives the same total score and total weight as without the row, for every
  configuration, and so does \<^verbatim>\<open>calculate_final_score\<close> when the scan has another
  row. No exception comes out of the parsing: with a configuration whose entries
  have their four keys, \<^verbatim>\<open>calculate_final_score\<close> returns a score whatever the
  stored strings are.
\<close>

theorem unparseable_value_is_absent:
  assumes "pf (metric_value r) = None"
  shows "score_loop (metrics_by_source pf (rs1 @ r # rs2)) ds acc =
           score_loop (metrics_by_source pf (rs1 @ rs2)) ds acc \<and>
         ((\<exists>r'\<in>set (rs1 @ rs2). sm_scan_id r' = sid) \<longrightarrow>
            calculate_final_score pf (Some (db\<lparr>scan_metadata := rs1 @ r # rs2\<rparr>)) config_file sid =
            calculate_final_score pf (Some (db\<lparr>scan_metadata := rs1 @ rs2\<rparr>)) config_file sid) \<and>
         (metrics c = Some ds \<and>
          (\<forall>d\<in>set ds. source d \<noteq> None \<and> key d \<noteq> None \<and> weight d \<noteq> None \<and>
                       m_type d \<noteq> None) \<longrightarrow>
            (\<exists>x. calculate_final_score pf (Some (db\<lparr>scan_metadata := rs1 @ r # rs2\<rparr>))
                    (Some c) sid = Inr x))"
proof (intro conjI impI)
  have eq: "score_loop (metrics_by_source pf (xs @ r # ys)) ds' acc' =
        score_loop (metrics_by_source pf (xs @ ys)) ds' acc'" for xs ys ds' acc'
    by (rule score_loop_cong) (simp add: lookup_unparseable [of pf r, OF assms])
  show "score_loop (metrics_by_source pf (rs1 @ r # rs2)) ds acc =
          score_loop (metrics_by_source pf (rs1 @ rs2)) ds acc"
    by (rule eq)
  {
    assume "\<exists>r'\<in>set (rs1 @ rs2). sm_scan_id r' = sid"
    then have ne:
      "filter (\<lambda>r. sm_scan_id r = sid) rs1 @ filter (\<lambda>r. sm_scan_id r = sid) rs2 \<noteq> []"
      by (auto simp: filter_empty_conv)
    show "calculate_final_score pf (Some (db\<lparr>scan_metadata := rs1 @ r # rs2\<rparr>)) config_file sid =
          calculate_final_score pf (Some (db\<lparr>scan_metadata := rs1 @ rs2\<rparr>)) config_file sid"
    proof (cases "sm_scan_id r = sid")
      case True
      with ne show ?thesis
        by (cases config_file) (auto simp: calculate_final_score_def eq)
    next
      case False
      then show ?thesis
        by (simp add: calculate_final_score_def)
    qed
  }
  {
    assume a: "metrics c = Some ds \<and>
      (\<forall>d\<in>set ds. source d \<noteq> None \<and> key d \<noteq> None \<and> weight d \<noteq> None \<and> m_type d \<noteq> None)"
    then have "\<forall>d\<in>set ds. source d \<noteq> None \<and> key d \<noteq> None \<and> weight d \<noteq> None \<and>
      m_type d \<noteq> None"
      by simp
    from score_loop_returns [OF this,
        of "metrics_by_source pf (filter (\<lambda>r. sm_scan_id r = sid) (rs1 @ r # rs2))" "(0, 0)"]
    obtain ts tw where
      "score_loop (metrics_by_source pf (filter (\<lambda>r. sm_scan_id r = sid) (rs1 @ r # rs2)))
         ds (0, 0) = Inr (ts, tw)"
      by auto
    with a show "\<exists>x. calculate_final_score pf (Some (db\<lparr>scan_metadata := rs1 @ r # rs2\<rparr>))
                    (Some c) sid = Inr x"
      by (simp add: calculate_final_score_def get_default_def)
  }
qed

theorem unparseable_value_is_absent_witness:
  "score_loop (metrics_by_source float_decimal [coverage_row ''n/a'', overall_row ''6''])
     [coverage_def ''Coverage'', overall_def ''OpenSSF''] (0, 0) = Inr (4, 1) \<and>
   calculate_final_score float_decimal
     (Some (db_of [] [coverage_row ''n/a'', overall_row ''6'']))
     (Some (config_of [coverage_def ''Coverage'', overall_def ''OpenSSF''])) 1 = Inr 4"
proof -
  have p: "float_decimal (metric_value (coverage_row ''n/a'')) = None"
    by (simp add: coverage_row_def float_decimal_na)
  have l: "score_loop (metrics_by_source float_decimal [overall_row ''6''])
             [coverage_def ''Coverage'', overall_def ''OpenSSF''] (0, 0) = Inr (4, 1)"
    by (simp add: scoring_defs scenario_defs float_decimal_6)
  have e: "\<exists>r'\<in>set ([] @ [overall_row ''6'']). sm_scan_id r' = 1"
    by (simp add: scenario_defs)
  have c: "calculate_final_score float_decimal (Some (db_of [] [overall_row ''6'']))
             (Some (config_of [coverage_def ''Coverage'', overall_def ''OpenSSF''])) 1 = Inr 4"
    by (simp add: scoring_defs scenario_defs float_decimal_6)
  have u: "(db_of [] [])\<lparr>scan_metadata := [] @ coverage_row ''n/a'' # [overall_row ''6'']\<rparr> =
             db_of [] [coverage_row ''n/a'', overall_row ''6'']"
    "(db_of [] [])\<lparr>scan_metadata := [] @ [overall_row ''6'']\<rparr> = db_of [] [overall_row ''6'']"
    by (simp_all add: db_of_def)
  from unparseable_value_is_absent [of float_decimal "coverage_row ''n/a''", OF p,
      of "[]" "[overall_row ''6'']" "[coverage_def ''Coverage'', overall_def ''OpenSSF'']"
         "(0, 0)" 1 "db_of [] []"
         "Some (config_of [coverage_def ''Coverage'', overall_def ''OpenSSF''])"]
    l e c u
  show ?thesis by simp
qed

text \<open>
  C10. When the only row of a (source, key) has a value that parses to -1, the
  lookup finds -1, and an entry for this (source, key) is skipped: the scoring
  loop gives the same total score and total weight as without the entry.
\<close>

theorem sentinel_value_is_skipped:
  assumes "pf (metric_value r) = Some (- 1)"
    and "metric_source r = s" "metric_key r = k"
    and "\<forall>r'\<in>set (rs1 @ rs2). \<not> (metric_source r' = s \<and> metric_key r' = k)"
    and "source d = Some s" "key d = Some k" "weight d \<noteq> None" "m_type d \<noteq> None"
  shows "lookup_metric (metrics_by_source pf (rs1 @ r # rs2)) s k = Some (- 1) \<and>
         score_loop (metrics_by_source pf (rs1 @ r # rs2)) (ds1 @ d # ds2) acc =
           score_loop (metrics_by_source pf (rs1 @ r # rs2)) (ds1 @ ds2) acc"
proof
  from assms(2-4)
  have "\<forall>r'\<in>set rs2. \<not> (metric_source r' = metric_source r \<and> metric_key r' = metric_key r)"
    by simp
  from lookup_last_parsed [of pf r, OF assms(1) this, of rs1] assms(2,3)
  show l: "lookup_metric (metrics_by_source pf (rs1 @ r # rs2)) s k = Some (- 1)"
    by simp
  then have "raw_value (metrics_by_source pf (rs1 @ r # rs2)) s k = - 1"
    by (simp add: raw_value_def get_default_def)
  with assms(5-8)
  show "score_loop (metrics_by_source pf (rs1 @ r # rs2)) (ds1 @ d # ds2) acc =
          score_loop (metrics_by_source pf (rs1 @ r # rs2)) (ds1 @ ds2) acc"
    by (rule score_loop_skip)
qed

theorem sentinel_value_is_skipped_witness:
  "lookup_metric (metrics_by_source float_decimal [coverage_row ''-1'', overall_row ''6''])
     ''sonarqube'' ''coverage'' = Some (- 1) \<and>
   score_loop (metrics_by_source float_decimal [coverage_row ''-1'', overall_row ''6''])
     [coverage_def ''Coverage'', overall_def ''OpenSSF''] (0, 0) = Inr (4, 1)"
proof -
  have p: "float_decimal (metric_value (coverage_row ''-1'')) = Some (- 1)"
    by (simp add: coverage_row_def float_decimal_minus_1)
  have r: "metric_source (coverage_row ''-1'') = ''sonarqube''"
    "metric_key (coverage_row ''-1'') = ''coverage''"
    by (simp_all add: coverage_row_def)
  have u: "\<forall>r'\<in>set ([] @ [overall_row ''6'']).
             \<not> (metric_source r' = ''sonarqube'' \<and> metric_key r' = ''coverage'')"
    by (simp add: overall_row_def)
  have f: "source (coverage_def ''Coverage'') = Some ''sonarqube''"
    "key (coverage_def ''Coverage'') = Some ''coverage''"
    "weight (coverage_def ''Coverage'') \<noteq> None" "m_type (coverage_def ''Coverage'') \<noteq> None"
    by (simp_all add: coverage_def_def)
  have l: "score_loop (metrics_by_source float_decimal [coverage_row ''-1'', overall_row ''6''])
             [overall_def ''OpenSSF''] (0, 0) = Inr (4, 1)"
    by (simp add: scoring_defs scenario_defs float_decimal_6 float_decimal_minus_1)
  from sentinel_value_is_skipped [of float_decimal "coverage_row ''-1''", OF p r u f,
      of "[]" "[overall_def ''OpenSSF'']" "(0, 0)"] l
  show ?thesis by simp
qed

end
